theory Spec2Isabelle
  imports Main
begin

section \<open>The world the script acts on\<close>

text \<open>
  \<^verbatim>\<open>devenv.py\<close> is a sequence of calls to three outside parties: a local git
  repository (through GitPython), AWS Amplify and AWS S3 (through boto3). The
  model keeps the part of their state the script reads (the repositories), a log
  of every mutating call with its outcome, and what the script prints. What
  the libraries do is written as they do it, not as the script expects it.
\<close>

datatype error =
    AssertionError string
  | AttributeError string
  | KeyError string
  | ValueError string
  | ClientError string
  | ParamValidationError string
  | EndpointConnectionError string
  | GitCommandError string
  | InvalidGitRepositoryError string
  | NotImplementedError string
  | SystemExit int

datatype call =
    GitCheckout string string
  | GitCreateHead string string
  | GitPush string string string
  | S3CreateBucket string string string
  | S3PutBucketEncryption string string
  | S3PutPublicAccessBlock string bool bool bool bool
  | AmplifyCreateBranch string string string bool bool bool
      "(string \<times> string) list" string "(string \<times> string) list"
  | AmplifyStartJob string string string string
  | AmplifyDeleteBranch string string

text \<open>
  The arguments are those of the source, in its order:
  \<open>GitCheckout path name\<close>, \<open>GitCreateHead path name\<close>,
  \<open>GitPush path remote name\<close>,
  \<open>S3CreateBucket ACL Bucket LocationConstraint\<close>,
  \<open>S3PutBucketEncryption Bucket SSEAlgorithm\<close>,
  \<open>S3PutPublicAccessBlock Bucket BlockPublicAcls IgnorePublicAcls BlockPublicPolicy
  RestrictPublicBuckets\<close>,
  \<open>AmplifyCreateBranch appId branchName stage enableNotification enableAutoBuild
  enableBasicAuth tags displayName environmentVariables\<close>,
  \<open>AmplifyStartJob appId branchName jobType jobReason\<close>,
  \<open>AmplifyDeleteBranch appId branchName\<close>.
  An event is a call with its outcome: \<open>None\<close> when it returned, \<open>Some e\<close> when
  it raised the exception \<open>e\<close>.
\<close>

type_synonym event = "call \<times> error option"

record repo =
  bare :: bool
  is_dirty :: bool
  branches :: "string list"
  head :: string
  remotes :: "string list"
  remote_heads :: "string list"

text \<open>
  \<open>branches\<close> are the local branches, \<open>head\<close> is what is checked out,
  \<open>remotes\<close> are the names of the configured remotes and \<open>remote_heads\<close> the
  branches git knows of a remote.
\<close>

record world =
  paths :: "string set"
  repos :: "string \<rightharpoonup> repo"
  respond :: "event list \<Rightarrow> call \<Rightarrow> error option"
  str_lower :: "string \<Rightarrow> string"
  events :: "event list"
  out :: "string list"

text \<open>
  \<open>paths\<close> are the paths that exist in the file system, \<open>repos\<close> the git
  repositories by path. Whether an outside call succeeds is not the script's
  decision: \<open>respond\<close> is the answer of the outside party, given everything
  that was called before: it returns, or it raises an exception, which may be
  any. \<open>str_lower\<close> is \<^verbatim>\<open>str.lower\<close> of the interpreter, which knows all of
  Unicode; the model does not define it, and what is proved holds for whatever
  function it is. \<open>out\<close> is the standard output, one entry per \<^verbatim>\<open>print\<close>.
\<close>

type_synonym 'a prog = "world \<Rightarrow> (error + 'a) \<times> world"

definition ret :: "'a \<Rightarrow> 'a prog" where
  "ret x = (\<lambda>w. (Inr x, w))"

definition raise :: "error \<Rightarrow> 'a prog" where
  "raise e = (\<lambda>w. (Inl e, w))"

definition bnd :: "'a prog \<Rightarrow> ('a \<Rightarrow> 'b prog) \<Rightarrow> 'b prog" where
  "bnd m f = (\<lambda>w. case m w of (Inl e, w') \<Rightarrow> (Inl e, w') | (Inr x, w') \<Rightarrow> f x w')"

definition do_when :: "bool \<Rightarrow> unit prog \<Rightarrow> unit prog" where
  "do_when b m = (if b then m else ret ())"

text \<open>
  \<^verbatim>\<open>try: body  except ClientError as e: handler(e); return ...\<close> followed by
  \<open>rest\<close>: a \<open>ClientError\<close> of the body runs the handler, whose value is the
  function's result; any other exception propagates; without an exception the
  function goes on with \<open>rest\<close>. \<open>client_error_msg e\<close> is the text of \<open>e\<close>
  when \<open>e\<close> is a \<open>ClientError\<close>, and \<open>None\<close> when it is another exception.
\<close>

fun client_error_msg :: "error \<Rightarrow> string option" where
  "client_error_msg (ClientError msg) = Some msg"
| "client_error_msg _ = None"

definition try_except_ClientError ::
  "unit prog \<Rightarrow> (string \<Rightarrow> 'b prog) \<Rightarrow> 'b prog \<Rightarrow> 'b prog" where
  "try_except_ClientError body handler rest =
     (\<lambda>w. case body w of
        (Inl e, w') \<Rightarrow>
          (case client_error_msg e of
             Some msg \<Rightarrow> handler msg w'
           | None \<Rightarrow> (Inl e, w'))
      | (Inr _, w') \<Rightarrow> rest w')"

definition py_assert :: "bool \<Rightarrow> string \<Rightarrow> unit prog" where
  "py_assert b msg = (if b then ret () else raise (AssertionError msg))"

fun unwords :: "string list \<Rightarrow> string" where
  "unwords [] = []"
| "unwords [s] = s"
| "unwords (s # t # ss) = s @ '' '' @ unwords (t # ss)"

text \<open>\<^verbatim>\<open>print(a, b, ...)\<close> writes its arguments separated by one space.\<close>

definition print :: "string list \<Rightarrow> unit prog" where
  "print args = (\<lambda>w. (Inr (), w\<lparr>out := out w @ [unwords args]\<rparr>))"

text \<open>\<^verbatim>\<open>d[k]\<close> on a mapping raises \<^verbatim>\<open>KeyError(k)\<close> for a missing key.\<close>

definition getitem :: "(string \<rightharpoonup> 'v) \<Rightarrow> string \<Rightarrow> 'v prog" where
  "getitem d k = (case d k of None \<Rightarrow> raise (KeyError k) | Some v \<Rightarrow> ret v)"

text \<open>
  A call to an outside party is logged with its outcome, and the exception
  the party answers with is raised. A call through boto3 raises botocore's
  \<^verbatim>\<open>ClientError\<close> for an error response of the service, and other exceptions
  for what goes wrong before there is a response (\<^verbatim>\<open>ParamValidationError\<close>
  for arguments botocore does not accept, \<^verbatim>\<open>EndpointConnectionError\<close>); the
  \<^verbatim>\<open>except\<close> clauses of the script name \<^verbatim>\<open>ClientError\<close> only.
\<close>

definition invoke :: "call \<Rightarrow> unit prog" where
  "invoke c w =
     (let r = respond w (events w) c;
          w' = w\<lparr>events := events w @ [(c, r)]\<rparr>
      in case r of None \<Rightarrow> (Inr (), w') | Some e \<Rightarrow> (Inl e, w'))"

definition boto3 :: "call \<Rightarrow> unit prog" where
  "boto3 c = invoke c"

definition lower :: "string \<Rightarrow> string prog" where
  "lower s = (\<lambda>w. (Inr (str_lower w s), w))"

subsection \<open>The git repository\<close>

text \<open>
  \<^verbatim>\<open>Repo(path)\<close> raises when \<open>path\<close> is no git repository. The reads
  \<^verbatim>\<open>repo.bare\<close>, \<^verbatim>\<open>repo.is_dirty()\<close> and \<^verbatim>\<open>repo.branches\<close> return the
  state of the repository. A git command that git accepts has its effect on
  that state. A checkout moves \<open>head\<close>; the checkout of a name that is no
  local branch but a branch of a remote also creates the local branch.
  \<^verbatim>\<open>create_head\<close> adds a branch. \<^verbatim>\<open>repo.remote(name)\<close> raises
  \<^verbatim>\<open>ValueError\<close> when there is no remote of that name. \<^verbatim>\<open>push\<close> returns a
  list of results, which the script does not read: a push that the remote
  rejected returns like one that it took, so the model gives a returned push
  no effect on the repository; a push raises only when git itself fails.
\<close>

definition with_repo :: "string \<Rightarrow> (repo \<Rightarrow> 'a) \<Rightarrow> 'a prog" where
  "with_repo path f =
     (\<lambda>w. case repos w path of
        None \<Rightarrow> (Inl (InvalidGitRepositoryError path), w)
      | Some r \<Rightarrow> (Inr (f r), w))"

definition Repo :: "string \<Rightarrow> unit prog" where
  "Repo path = with_repo path (\<lambda>_. ())"

definition update_repo :: "string \<Rightarrow> (repo \<Rightarrow> repo) \<Rightarrow> unit prog" where
  "update_repo path f =
     (\<lambda>w. case repos w path of
        None \<Rightarrow> (Inl (InvalidGitRepositoryError path), w)
      | Some r \<Rightarrow> (Inr (), w\<lparr>repos := (repos w)(path \<mapsto> f r)\<rparr>))"

definition checked_out :: "string \<Rightarrow> repo \<Rightarrow> repo" where
  "checked_out name r =
     r\<lparr>head := name,
       branches :=
         (if name \<notin> set (branches r) \<and> name \<in> set (remote_heads r)
          then branches r @ [name] else branches r)\<rparr>"

definition git_checkout :: "string \<Rightarrow> string \<Rightarrow> unit prog" where
  "git_checkout path name =
     bnd (invoke (GitCheckout path name)) (\<lambda>_.
     update_repo path (checked_out name))"

definition create_head :: "string \<Rightarrow> string \<Rightarrow> unit prog" where
  "create_head path name =
     bnd (invoke (GitCreateHead path name)) (\<lambda>_.
     update_repo path (\<lambda>r. r\<lparr>branches := branches r @ [name]\<rparr>))"

definition no_remote_msg :: "string \<Rightarrow> string" where
  "no_remote_msg remote =
     ''Remote named '' @ [CHR 0x27] @ remote @ [CHR 0x27] @ '' didn'' @ [CHR 0x27] @
     ''t exist''"

definition remote_push :: "string \<Rightarrow> string \<Rightarrow> string \<Rightarrow> unit prog" where
  "remote_push path remote name =
     bnd (with_repo path remotes) (\<lambda>names.
     bnd (do_when (remote \<notin> set names) (raise (ValueError (no_remote_msg remote)))) (\<lambda>_.
     invoke (GitPush path remote name)))"

subsection \<open>Configuration\<close>

text \<open>
  \<^verbatim>\<open>config.ini\<close> read by \<^verbatim>\<open>configparser\<close>: sections by name, each a map from
  keys to values.
\<close>

type_synonym config_section = "string \<rightharpoonup> string"
type_synonym config = "string \<rightharpoonup> config_section"

section \<open>setup_git\<close>

definition dirty_default_msg :: string where
  "dirty_default_msg =
     ''Repo is dirty, I am not sure if it is safe to switch to default branch. Aborting''"

definition dirty_branch_msg :: string where
  "dirty_branch_msg =
     ''Repo is dirty, I am not sure if it is safe to switch to branch. Aborting''"

definition not_exist_msg :: "string \<Rightarrow> string" where
  "not_exist_msg branch_name = ''Branch '' @ branch_name @ '' does not exist''"

text \<open>
  Line 148 is \<^verbatim>\<open>assert Path.exists(path)\<close> with \<open>path\<close> the \<^verbatim>\<open>str\<close> that
  \<^verbatim>\<open>configparser\<close> returned. \<^verbatim>\<open>Path.exists\<close> is the method of
  \<^verbatim>\<open>pathlib.Path\<close>, called here on the class with a \<^verbatim>\<open>str\<close> in the place of
  the path object; its body calls \<^verbatim>\<open>self.stat()\<close>, and a \<^verbatim>\<open>str\<close> has no
  such method: the call raises \<^verbatim>\<open>AttributeError\<close> (CPython 3.11 and 3.12),
  whatever the path is. \<open>os_path_exists\<close> is the test the line is meant to
  make, used below to say what lies behind line 148.
\<close>

definition no_stat_msg :: string where
  "no_stat_msg =
     [CHR 0x27] @ ''str'' @ [CHR 0x27] @ '' object has no attribute '' @ [CHR 0x27] @
     ''stat'' @ [CHR 0x27]"

definition Path_exists :: "string \<Rightarrow> bool prog" where
  "Path_exists path = raise (AttributeError no_stat_msg)"

definition os_path_exists :: "string \<Rightarrow> bool prog" where
  "os_path_exists path = (\<lambda>w. (Inr (path \<in> paths w), w))"

text \<open>
  \<^verbatim>\<open>setup_git\<close>, with the test of line 148 as the parameter \<open>exists\<close>;
  \<^verbatim>\<open>config[product]\<close> is looked up before the assertions, as in the source.
  The function of the source is \<open>setup_git\<close> below, with \<open>Path_exists\<close>.
\<close>

definition setup_git_with ::
  "(string \<Rightarrow> bool prog) \<Rightarrow> config \<Rightarrow> string \<Rightarrow> string \<Rightarrow> bool \<Rightarrow> bool \<Rightarrow> bool \<Rightarrow>
     unit prog" where
  "setup_git_with exists config product branch_name no_create ignore_non_existing
     reset_only =
     bnd (getitem config product) (\<lambda>sect.
     bnd (getitem sect ''path'') (\<lambda>path.
     bnd (exists path) (\<lambda>path_exists.
     bnd (py_assert path_exists (''Path '' @ path @ '' does not exist'')) (\<lambda>_.
     bnd (py_assert (product \<noteq> []) ''Product is not set'') (\<lambda>_.
     bnd (py_assert (branch_name \<noteq> []) ''Branch name is not set'') (\<lambda>_.
     bnd (print [''Setting up git for'', product, ''in'', path]) (\<lambda>_.
     bnd (Repo path) (\<lambda>_.
     bnd (with_repo path bare) (\<lambda>repo_bare.
     bnd (py_assert (\<not> repo_bare) []) (\<lambda>_.
     bnd (do_when ((\<not> no_create \<or> reset_only) \<and> sect ''default-branch'' \<noteq> None)
            (bnd (getitem sect ''default-branch'') (\<lambda>default_branch.
             bnd (print [''Switching to default branch'', default_branch]) (\<lambda>_.
             bnd (with_repo path is_dirty) (\<lambda>dirty.
             bnd (do_when dirty (raise (ValueError dirty_default_msg))) (\<lambda>_.
             git_checkout path default_branch)))))) (\<lambda>_.
     if reset_only then ret ()
     else
     bnd (with_repo path branches) (\<lambda>branch_names.
     bnd (if branch_name \<notin> set branch_names then
            (if no_create \<and> ignore_non_existing then
               print [not_exist_msg branch_name]
             else if no_create then
               raise (ValueError (not_exist_msg branch_name))
             else
               bnd (print [''Creating branch '' @ branch_name]) (\<lambda>_.
               bnd (create_head path branch_name) (\<lambda>_.
               remote_push path ''origin'' branch_name)))
          else
            bnd (with_repo path is_dirty) (\<lambda>dirty.
            do_when dirty (raise (ValueError dirty_branch_msg)))) (\<lambda>_.
     bnd (print [''Checking out branch '' @ branch_name]) (\<lambda>_.
     git_checkout path branch_name))))))))))))))"

definition setup_git ::
  "config \<Rightarrow> string \<Rightarrow> string \<Rightarrow> bool \<Rightarrow> bool \<Rightarrow> bool \<Rightarrow> unit prog" where
  "setup_git = setup_git_with Path_exists"

section \<open>The deployment bucket\<close>

definition setup_deployment_bucket :: "string \<Rightarrow> bool prog" where
  "setup_deployment_bucket stage =
     bnd (lower stage) (\<lambda>lowered.
     (let bucket_name = ''serverless-deployment-state-'' @ lowered in
      try_except_ClientError
        (boto3 (S3CreateBucket ''private'' bucket_name ''us-west-2''))
        (\<lambda>e. bnd (print [''Unable to create bucket '' @ bucket_name, e]) (\<lambda>_.
              ret False))
        (bnd (boto3 (S3PutBucketEncryption bucket_name ''AES256'')) (\<lambda>_.
         bnd (boto3 (S3PutPublicAccessBlock bucket_name True True True True)) (\<lambda>_.
         ret True)))))"

section \<open>Amplify environments\<close>

definition thumbs_up :: string where
  "thumbs_up = [CHR 0xF0, CHR 0x9F, CHR 0x91, CHR 0x8D]"

definition sunglasses :: string where
  "sunglasses = [CHR 0xF0, CHR 0x9F, CHR 0x98, CHR 0x8E]"

definition amplify_exception_msg :: "string \<Rightarrow> string" where
  "amplify_exception_msg e = ''Call to the Amplify Console throw an exception: '' @ e"

text \<open>
  Lines 47 to 55 of \<^verbatim>\<open>setup_claire_amplify\<close> and lines 83 to 91 of
  \<^verbatim>\<open>setup_wellsky_apps_amplify\<close> are the same: the release job, outside the
  \<^verbatim>\<open>try\<close>.
\<close>

definition start_release_job :: "config_section \<Rightarrow> string \<Rightarrow> unit prog" where
  "start_release_job prod_config branch =
     bnd (getitem prod_config ''app_id'') (\<lambda>app_id.
     bnd (boto3 (AmplifyStartJob app_id branch ''RELEASE'' ''Initial environment setup''))
       (\<lambda>_.
     bnd (print [''Started Amplify job'']) (\<lambda>_.
     print [''Done setting up development environment '' @ sunglasses])))"

definition setup_claire_amplify ::
  "config \<Rightarrow> string \<Rightarrow> string \<Rightarrow> string \<Rightarrow> string \<Rightarrow> unit prog" where
  "setup_claire_amplify config branch env_name bretha_graphql_endpoint shared_data_with =
     bnd (py_assert (branch \<noteq> []) ''Branch is not set'') (\<lambda>_.
     bnd (py_assert (env_name \<noteq> []) ''Environment name is not set'') (\<lambda>_.
     bnd (py_assert (bretha_graphql_endpoint \<noteq> []) ''Bretha graphql endpoint is not set'')
       (\<lambda>_.
     bnd (py_assert (shared_data_with \<noteq> []) ''Shared data with is not set'') (\<lambda>_.
     bnd (print [''Creating claire Amplify environment'', env_name]) (\<lambda>_.
     bnd (getitem config ''claire'') (\<lambda>prod_config.
     bnd (lower env_name) (\<lambda>stage.
     bnd (setup_deployment_bucket stage) (\<lambda>created.
     bnd (if created then print [''Deployment bucket is now setup '' @ thumbs_up]
          else print [''Deployment bucket already exists'']) (\<lambda>_.
     try_except_ClientError
       (bnd (getitem prod_config ''app_id'') (\<lambda>app_id.
        bnd (lower env_name) (\<lambda>display_name.
        bnd (boto3 (AmplifyCreateBranch app_id branch ''DEVELOPMENT'' False True False
               [(''name'', ''claire-'' @ env_name)] display_name
               [(''BRETHA_GRAPHQL_ENDPOINT'', bretha_graphql_endpoint),
                (''SHARED_DATA_WITH'', shared_data_with)])) (\<lambda>_.
        print [''Created Amplify branch'']))))
       (\<lambda>e. print [amplify_exception_msg e])
       (start_release_job prod_config branch))))))))))"

definition setup_wellsky_apps_amplify :: "config \<Rightarrow> string \<Rightarrow> string \<Rightarrow> unit prog" where
  "setup_wellsky_apps_amplify config branch env_name =
     bnd (py_assert (branch \<noteq> []) ''Branch is not set'') (\<lambda>_.
     bnd (py_assert (env_name \<noteq> []) ''Environment name is not set'') (\<lambda>_.
     bnd (print [''Creating wellsky apps branch'', env_name]) (\<lambda>_.
     bnd (getitem config ''wellsky-apps'') (\<lambda>prod_config.
     try_except_ClientError
       (bnd (getitem prod_config ''app_id'') (\<lambda>app_id.
        bnd (lower env_name) (\<lambda>display_name.
        bnd (boto3 (AmplifyCreateBranch app_id branch ''DEVELOPMENT'' False True False
               [(''name'', ''wellsky-apps-'' @ env_name)] display_name [])) (\<lambda>_.
        print [''Created Amplify branch'']))))
       (\<lambda>e. print [amplify_exception_msg e])
       (start_release_job prod_config branch)))))"

definition remove_amplify :: "config \<Rightarrow> string \<Rightarrow> string \<Rightarrow> unit prog" where
  "remove_amplify config product env_name =
     bnd (py_assert (product \<noteq> []) ''Product is not set'') (\<lambda>_.
     bnd (py_assert (env_name \<noteq> []) ''Environment name is not set'') (\<lambda>_.
     bnd (print [''Removing branch from amplify'', env_name]) (\<lambda>_.
     try_except_ClientError
       (bnd (getitem config product) (\<lambda>prod_config.
        bnd (getitem prod_config ''app_id'') (\<lambda>app_id.
        boto3 (AmplifyDeleteBranch app_id env_name))))
       (\<lambda>e. print [''Unable to remove Amplify branch: '' @ e])
       (print [''Done'']))))"

definition copy_data :: "string \<Rightarrow> string \<Rightarrow> unit prog" where
  "copy_data dto dfrom = raise (NotImplementedError ''We are not there yet'')"

section \<open>The command line\<close>

text \<open>
  The namespace \<^verbatim>\<open>argparse\<close> returns. An option that was not given is
  \<open>None\<close>; \<open>jira\<close> is \<open>None\<close> unless the subcommand was used, and then holds
  its \<^verbatim>\<open>ticket\<close> and \<^verbatim>\<open>--new\<close>.
\<close>

record args =
  branch :: "string option"
  env :: "string option"
  remote_only :: bool
  local_only :: bool
  bretha_graphql_endpoint :: "string option"
  remove :: bool
  copy_data_from :: "string option"
  share_data_with :: "string option"
  claire :: bool
  wellsky_apps :: bool
  jira :: "(string option \<times> bool) option"

text \<open>
  Python's truth test of an optional string, and the string itself: \<open>None\<close> and
  the empty string are both false, and every function the script passes an
  option to tests it for truth before it uses it, or is called only after
  such a test.
\<close>

definition truthy :: "string option \<Rightarrow> bool" where
  "truthy s = (case s of None \<Rightarrow> False | Some v \<Rightarrow> v \<noteq> [])"

definition str :: "string option \<Rightarrow> string" where
  "str s = (case s of None \<Rightarrow> [] | Some v \<Rightarrow> v)"

text \<open>
  Lines 226 to 230, the local branches, and lines 232 to 250, the Amplify
  environments: what runs when the shortcut has not ended the run.
\<close>

definition local_part :: "config \<Rightarrow> args \<Rightarrow> unit prog" where
  "local_part config a =
     do_when (\<not> remote_only a \<and> truthy (branch a))
       (bnd (do_when (claire a)
               (setup_git config ''claire'' (str (branch a)) (local_only a) False False))
          (\<lambda>_.
        do_when (wellsky_apps a)
          (setup_git config ''wellsky-apps'' (str (branch a)) (local_only a) False False)))"

definition remote_part :: "config \<Rightarrow> args \<Rightarrow> unit prog" where
  "remote_part config a =
     do_when (\<not> local_only a)
       (if remove a then
          bnd (do_when (claire a) (remove_amplify config ''claire'' (str (env a)))) (\<lambda>_.
          do_when (wellsky_apps a) (remove_amplify config ''wellsky-apps'' (str (env a))))
        else
          bnd (do_when (claire a)
                 (setup_claire_amplify config (str (branch a)) (str (env a))
                    (str (bretha_graphql_endpoint a)) (str (share_data_with a)))) (\<lambda>_.
          bnd (do_when (wellsky_apps a)
                 (setup_wellsky_apps_amplify config (str (branch a)) (str (env a)))) (\<lambda>_.
          do_when (truthy (copy_data_from a))
            (copy_data (str (env a)) (str (copy_data_from a))))))"

definition general :: "config \<Rightarrow> args \<Rightarrow> unit prog" where
  "general config a = bnd (local_part config a) (\<lambda>_. remote_part config a)"

definition main :: "config \<Rightarrow> args \<Rightarrow> unit prog" where
  "main config a =
     (case jira a of
        Some (Some ticket, new) \<Rightarrow>
          if ticket \<noteq> [] then
            (let a1 = a\<lparr>local_only := True, branch := Some (''issue/'' @ ticket)\<rparr> in
             if new then
               general config
                 (a1\<lparr>env := Some ticket, share_data_with := Some ''qa'',
                     local_only := False\<rparr>)
             else
               bnd (do_when (claire a1)
                      (setup_git config ''claire'' (str (branch a1)) (local_only a1)
                         True False)) (\<lambda>_.
               bnd (do_when (wellsky_apps a1)
                      (setup_git config ''wellsky-apps'' (str (branch a1)) (local_only a1)
                         True False)) (\<lambda>_.
               raise (SystemExit 0))))
          else general config a
      | _ \<Rightarrow> general config a)"

section \<open>Reading the log\<close>

text \<open>
  The events a run added to the log, the kinds of call, and what it means that
  the outside parties accept a sequence of calls made one after the other.
\<close>

definition new_events :: "world \<Rightarrow> world \<Rightarrow> event list" where
  "new_events w w' = drop (length (events w)) (events w')"

fun is_git :: "call \<Rightarrow> bool" where
  "is_git (GitCheckout _ _) = True"
| "is_git (GitCreateHead _ _) = True"
| "is_git (GitPush _ _ _) = True"
| "is_git _ = False"

fun is_create_branch :: "call \<Rightarrow> bool" where
  "is_create_branch (AmplifyCreateBranch _ _ _ _ _ _ _ _ _) = True"
| "is_create_branch _ = False"

fun is_start_job :: "call \<Rightarrow> bool" where
  "is_start_job (AmplifyStartJob _ _ _ _) = True"
| "is_start_job _ = False"

fun accepts :: "world \<Rightarrow> event list \<Rightarrow> call list \<Rightarrow> bool" where
  "accepts w h [] = True"
| "accepts w h (c # cs) = (respond w h c = None \<and> accepts w (h @ [(c, None)]) cs)"

definition accepted :: "call list \<Rightarrow> event list" where
  "accepted cs = map (\<lambda>c. (c, None)) cs"

section \<open>Example inputs\<close>

text \<open>
  A configuration with both products, \<open>claire\<close> with a default branch and
  \<open>wellsky-apps\<close> without one, and a world with a repository for each.
\<close>

definition example_config :: config where
  "example_config =
     [''claire'' \<mapsto>
        [''path'' \<mapsto> ''/src/claire'', ''app_id'' \<mapsto> ''d1claire'',
         ''default-branch'' \<mapsto> ''main''],
      ''wellsky-apps'' \<mapsto>
        [''path'' \<mapsto> ''/src/wellsky-apps'', ''app_id'' \<mapsto> ''d2wellsky'']]"

definition clean_repo :: repo where
  "clean_repo =
     \<lparr>bare = False, is_dirty = False, branches = [''main''], head = ''main'',
      remotes = [''origin''], remote_heads = [''main'']\<rparr>"

definition dirty_repo :: repo where
  "dirty_repo = clean_repo\<lparr>is_dirty := True\<rparr>"

text \<open>
  The names of the examples are ASCII, where \<^verbatim>\<open>str.lower\<close> lowers the
  letters A to Z and leaves the rest.
\<close>

definition ascii_lower_char :: "char \<Rightarrow> char" where
  "ascii_lower_char c =
     (let n = (of_char c :: nat) in if 65 \<le> n \<and> n \<le> 90 then char_of (n + 32) else c)"

definition ascii_lower :: "string \<Rightarrow> string" where
  "ascii_lower s = map ascii_lower_char s"

definition example_world ::
  "repo \<Rightarrow> repo \<Rightarrow> (event list \<Rightarrow> call \<Rightarrow> error option) \<Rightarrow> world" where
  "example_world rc rw resp =
     \<lparr>paths = {''/src/claire'', ''/src/wellsky-apps''},
      repos = [''/src/claire'' \<mapsto> rc, ''/src/wellsky-apps'' \<mapsto> rw],
      respond = resp, str_lower = ascii_lower, events = [], out = []\<rparr>"

definition accept_all :: "event list \<Rightarrow> call \<Rightarrow> error option" where
  "accept_all h c = None"

definition refuse :: "call \<Rightarrow> error \<Rightarrow> event list \<Rightarrow> call \<Rightarrow> error option" where
  "refuse c0 e h c = (if c = c0 then Some e else None)"

text \<open>A program all of whose calls go to git.\<close>

definition git_only :: "'a prog \<Rightarrow> bool" where
  "git_only m =
     (\<forall>w. \<exists>es. events (snd (m w)) = events w @ es \<and> (\<forall>e \<in> set es. is_git (fst e)))"

text \<open>The namespace of a command line without options.\<close>

definition default_args :: args where
  "default_args =
     \<lparr>branch = None, env = None, remote_only = False, local_only = False,
      bretha_graphql_endpoint = Some ''http://graphql.claire-qa.clearcare.ninja'',
      remove = False, copy_data_from = None, share_data_with = None,
      claire = False, wellsky_apps = False, jira = None\<rparr>"

text \<open>
  The Amplify calls of an environment \<open>CW-2134\<close> on the branch \<open>feature/x\<close>,
  a command line that selects both products for it, and the command line of
  the ticket shortcut for \<open>claire\<close>.
\<close>

definition claire_create_branch :: "string \<Rightarrow> call" where
  "claire_create_branch br =
     AmplifyCreateBranch ''d1claire'' br ''DEVELOPMENT'' False True False
       [(''name'', ''claire-CW-2134'')] ''cw-2134''
       [(''BRETHA_GRAPHQL_ENDPOINT'', ''http://graphql.claire-qa.clearcare.ninja''),
        (''SHARED_DATA_WITH'', ''qa'')]"

definition wellsky_create_branch :: "string \<Rightarrow> call" where
  "wellsky_create_branch br =
     AmplifyCreateBranch ''d2wellsky'' br ''DEVELOPMENT'' False True False
       [(''name'', ''wellsky-apps-CW-2134'')] ''cw-2134'' []"

definition start_job :: "string \<Rightarrow> string \<Rightarrow> call" where
  "start_job app br = AmplifyStartJob app br ''RELEASE'' ''Initial environment setup''"

definition bucket_calls :: "event list" where
  "bucket_calls =
     [(S3CreateBucket ''private'' ''serverless-deployment-state-cw-2134'' ''us-west-2'',
       None),
      (S3PutBucketEncryption ''serverless-deployment-state-cw-2134'' ''AES256'', None),
      (S3PutPublicAccessBlock ''serverless-deployment-state-cw-2134'' True True True True,
       None)]"

definition batch_args :: args where
  "batch_args =
     default_args\<lparr>branch := Some ''feature/x'', env := Some ''CW-2134'',
       remote_only := True, share_data_with := Some ''qa'', claire := True,
       wellsky_apps := True\<rparr>"

definition jira_args :: "bool \<Rightarrow> args" where
  "jira_args new = default_args\<lparr>claire := True, jira := Some (Some ''CW-2134'', new)\<rparr>"



text \<open>What git answers to the checkout of a name it cannot resolve.\<close>

definition pathspec_error :: error where
  "pathspec_error =
     GitCommandError ''error: pathspec did not match any file(s) known to git''"

lemmas prog_defs = ret_def raise_def bnd_def do_when_def py_assert_def print_def
  getitem_def with_repo_def Repo_def update_repo_def invoke_def boto3_def lower_def
  try_except_ClientError_def git_checkout_def create_head_def remote_push_def
  checked_out_def Path_exists_def os_path_exists_def

lemmas example_defs = example_config_def clean_repo_def dirty_repo_def example_world_def
  accept_all_def refuse_def default_args_def claire_create_branch_def pathspec_error_def
  wellsky_create_branch_def start_job_def bucket_calls_def batch_args_def jira_args_def

lemmas workflow_defs = setup_claire_amplify_def setup_wellsky_apps_amplify_def
  setup_deployment_bucket_def start_release_job_def remove_amplify_def copy_data_def
  main_def general_def local_part_def remote_part_def str_def truthy_def Let_def

lemma lower_examples:
  "ascii_lower ''QA'' = ''qa''" "ascii_lower ''CW-2134'' = ''cw-2134''"
  "ascii_lower ''cw-2134'' = ''cw-2134''" "ascii_lower ''feature/x'' = ''feature/x''"
  by code_simp+

section \<open>Properties of setup_git\<close>

subsection \<open>Line 148\<close>

text \<open>
  Every call of \<^verbatim>\<open>setup_git\<close> for a product that has a section with a
  \<open>path\<close> ends at line 148, in the \<^verbatim>\<open>AttributeError\<close> of \<^verbatim>\<open>Path.exists\<close>:
  nothing was printed, nothing was asked of git.
\<close>

lemma setup_git_stops_at_line_148:
  assumes "config product = Some sect" and "sect ''path'' = Some path"
  shows "setup_git config product branch_name no_create ignore_non_existing reset_only w =
           (Inl (AttributeError no_stat_msg), w)"
  using assms by (simp add: setup_git_def setup_git_with_def prog_defs)

text \<open>
  What lies behind line 148 is said of \<open>setup_git_with\<close> and a test that
  passes: \<open>exists path w = (Inr True, w)\<close>.
\<close>

lemma setup_git_with_reset_only:
  assumes "config product = Some sect" and "sect ''path'' = Some path"
    and "exists path w = (Inr True, w)" and "product \<noteq> []" and "branch_name \<noteq> []"
    and "repos w path = Some r" and "\<not> bare r"
    and "sect ''default-branch'' = Some d"
  shows "(is_dirty r \<longrightarrow>
            setup_git_with exists config product branch_name no_create ignore_non_existing
              True w =
              (Inl (ValueError dirty_default_msg),
               w\<lparr>out := out w @
                    [unwords [''Setting up git for'', product, ''in'', path],
                     unwords [''Switching to default branch'', d]]\<rparr>))
       \<and> (\<not> is_dirty r \<and> accepts w (events w) [GitCheckout path d] \<longrightarrow>
            setup_git_with exists config product branch_name no_create ignore_non_existing
              True w =
              (Inr (),
               w\<lparr>out := out w @
                    [unwords [''Setting up git for'', product, ''in'', path],
                     unwords [''Switching to default branch'', d]],
                 events := events w @ accepted [GitCheckout path d],
                 repos := (repos w)(path \<mapsto> checked_out d r)\<rparr>))"
  using assms by (simp add: setup_git_with_def prog_defs accepted_def)

lemma setup_git_with_no_create_missing:
  assumes "config product = Some sect" and "sect ''path'' = Some path"
    and "exists path w = (Inr True, w)" and "product \<noteq> []" and "branch_name \<noteq> []"
    and "repos w path = Some r" and "\<not> bare r"
    and "branch_name \<notin> set (branches r)"
  shows "setup_git_with exists config product branch_name True False False w =
           (Inl (ValueError (not_exist_msg branch_name)),
            w\<lparr>out := out w @ [unwords [''Setting up git for'', product, ''in'', path]]\<rparr>)"
  using assms by (simp add: setup_git_with_def prog_defs)

lemma setup_git_with_ignore_missing_falls_through:
  assumes "config product = Some sect" and "sect ''path'' = Some path"
    and "exists path w = (Inr True, w)" and "product \<noteq> []" and "branch_name \<noteq> []"
    and "repos w path = Some r" and "\<not> bare r"
    and "branch_name \<notin> set (branches r)"
  shows "new_events w
           (snd (setup_git_with exists config product branch_name True True False w)) =
           [(GitCheckout path branch_name,
             respond w (events w) (GitCheckout path branch_name))]"
  using assms
  by (simp add: setup_git_with_def prog_defs Let_def new_events_def split: option.splits)

lemma setup_git_with_dirty_default:
  assumes "config product = Some sect" and "sect ''path'' = Some path"
    and "exists path w = (Inr True, w)" and "product \<noteq> []" and "branch_name \<noteq> []"
    and "repos w path = Some r" and "\<not> bare r"
    and "sect ''default-branch'' = Some d" and "is_dirty r"
  shows "setup_git_with exists config product branch_name False ignore_non_existing False w =
           (Inl (ValueError dirty_default_msg),
            w\<lparr>out := out w @
                 [unwords [''Setting up git for'', product, ''in'', path],
                  unwords [''Switching to default branch'', d]]\<rparr>)"
  using assms by (simp add: setup_git_with_def prog_defs)

lemma setup_git_with_create_path:
  assumes "config product = Some sect" and "sect ''path'' = Some path"
    and "exists path w = (Inr True, w)" and "product \<noteq> []" and "branch_name \<noteq> []"
    and "repos w path = Some r" and "\<not> bare r"
    and "branch_name \<notin> set (branches r)" and "''origin'' \<in> set (remotes r)"
    and "sect ''default-branch'' = None"
    and "accepts w (events w)
           [GitCreateHead path branch_name, GitPush path ''origin'' branch_name,
            GitCheckout path branch_name]"
  shows "setup_git_with exists config product branch_name False ignore_non_existing False w =
           (Inr (),
            w\<lparr>out := out w @
                 [unwords [''Setting up git for'', product, ''in'', path],
                  ''Creating branch '' @ branch_name,
                  ''Checking out branch '' @ branch_name],
              events := events w @
                 accepted [GitCreateHead path branch_name,
                    GitPush path ''origin'' branch_name, GitCheckout path branch_name],
              repos := (repos w)(path \<mapsto>
                 r\<lparr>head := branch_name, branches := branches r @ [branch_name]\<rparr>)\<rparr>)"
  using assms by (simp add: setup_git_with_def prog_defs accepted_def)

subsection \<open>A missing branch that is to be ignored\<close>

text \<open>
  C1. \<^verbatim>\<open>setup_git(config, 'claire', 'issue/CW-2134', True,
  ignore_non_existing=True)\<close>, the call of \<^verbatim>\<open>devenv.py --claire jira CW-2134\<close>,
  on a clean repository without the branch. The call does not return: it ends
  at line 148 in \<^verbatim>\<open>AttributeError\<close>, the world as it was. And behind line
  148, with the test that is meant there, lines 167 and 168 print that the
  branch does not exist and have no \<^verbatim>\<open>return\<close>: the function goes on to
  line 178 and checks the branch out, which git refuses here.
\<close>

theorem setup_git_ignore_missing_never_returns:
  "''issue/CW-2134'' \<notin> set (branches clean_repo)
   \<and> setup_git example_config ''claire'' ''issue/CW-2134'' True True False
       (example_world clean_repo clean_repo
          (refuse (GitCheckout ''/src/claire'' ''issue/CW-2134'') pathspec_error)) =
     (Inl (AttributeError no_stat_msg),
      example_world clean_repo clean_repo
          (refuse (GitCheckout ''/src/claire'' ''issue/CW-2134'') pathspec_error))
   \<and> setup_git_with os_path_exists example_config ''claire'' ''issue/CW-2134'' True True
       False
       (example_world clean_repo clean_repo
          (refuse (GitCheckout ''/src/claire'' ''issue/CW-2134'') pathspec_error)) =
     (Inl pathspec_error,
      (example_world clean_repo clean_repo
          (refuse (GitCheckout ''/src/claire'' ''issue/CW-2134'') pathspec_error))
        \<lparr>out := [''Setting up git for claire in /src/claire'',
                  ''Branch issue/CW-2134 does not exist'',
                  ''Checking out branch issue/CW-2134''],
          events := [(GitCheckout ''/src/claire'' ''issue/CW-2134'', Some pathspec_error)]\<rparr>)"
  by (simp add: setup_git_def setup_git_with_def prog_defs example_defs not_exist_msg_def)

theorem setup_git_ignore_missing_never_returns_witness:
  "fst (setup_git example_config ''claire'' ''issue/CW-2134'' True True False
          (example_world clean_repo clean_repo
             (refuse (GitCheckout ''/src/claire'' ''issue/CW-2134'') pathspec_error)))
     = Inl (AttributeError no_stat_msg)
   \<and> events (snd (setup_git_with os_path_exists example_config ''claire''
          ''issue/CW-2134'' True True False
          (example_world clean_repo clean_repo
             (refuse (GitCheckout ''/src/claire'' ''issue/CW-2134'') pathspec_error))))
     = [(GitCheckout ''/src/claire'' ''issue/CW-2134'', Some pathspec_error)]"
  using setup_git_ignore_missing_never_returns by simp

subsection \<open>Reset only\<close>

text \<open>
  C5. \<^verbatim>\<open>setup_git(config, 'claire', 'issue/CW-2134', reset_only=True)\<close>;
  claire has the default branch \<open>main\<close>. On a dirty working tree and on a clean
  one the call ends at line 148 in \<^verbatim>\<open>AttributeError\<close>: not in the
  \<^verbatim>\<open>ValueError\<close> of the dirty tree, and the repository is not moved to the
  default branch. Lemma \<open>setup_git_with_reset_only\<close> is what the claim says,
  behind line 148.
\<close>

theorem setup_git_reset_only_stops_at_line_148:
  "setup_git example_config ''claire'' ''issue/CW-2134'' False False True
     (example_world dirty_repo clean_repo accept_all) =
   (Inl (AttributeError no_stat_msg), example_world dirty_repo clean_repo accept_all)
   \<and> setup_git example_config ''claire'' ''issue/CW-2134'' False False True
     (example_world clean_repo clean_repo accept_all) =
   (Inl (AttributeError no_stat_msg), example_world clean_repo clean_repo accept_all)"
  by (simp add: setup_git_def setup_git_with_def prog_defs example_defs)

theorem setup_git_reset_only_stops_at_line_148_witness:
  "fst (setup_git example_config ''claire'' ''issue/CW-2134'' False False True
          (example_world dirty_repo clean_repo accept_all))
     = Inl (AttributeError no_stat_msg)
   \<and> events (snd (setup_git example_config ''claire'' ''issue/CW-2134'' False False True
          (example_world clean_repo clean_repo accept_all))) = []"
  using setup_git_reset_only_stops_at_line_148 by (simp add: example_world_def)

subsection \<open>A missing branch that must exist\<close>




subsection \<open>Creating a branch\<close>







subsection \<open>An empty product\<close>

text \<open>
  The other functions assert their identifiers before anything else: an empty
  identifier ends in the \<^verbatim>\<open>AssertionError\<close> of its assertion, the world
  untouched. In \<^verbatim>\<open>setup_git\<close> the assertion of the branch name stands behind
  line 148.
\<close>

lemma empty_identifier_assertions:
  "remove_amplify config [] env_name w = (Inl (AssertionError ''Product is not set''), w)"
  "product \<noteq> [] \<Longrightarrow>
     remove_amplify config product [] w =
       (Inl (AssertionError ''Environment name is not set''), w)"
  "setup_claire_amplify config [] env_name ep sh w =
     (Inl (AssertionError ''Branch is not set''), w)"
  "br \<noteq> [] \<Longrightarrow>
     setup_claire_amplify config br [] ep sh w =
       (Inl (AssertionError ''Environment name is not set''), w)"
  "br \<noteq> [] \<Longrightarrow> env_name \<noteq> [] \<Longrightarrow>
     setup_claire_amplify config br env_name [] sh w =
       (Inl (AssertionError ''Bretha graphql endpoint is not set''), w)"
  "br \<noteq> [] \<Longrightarrow> env_name \<noteq> [] \<Longrightarrow> ep \<noteq> [] \<Longrightarrow>
     setup_claire_amplify config br env_name ep [] w =
       (Inl (AssertionError ''Shared data with is not set''), w)"
  "setup_wellsky_apps_amplify config [] env_name w =
     (Inl (AssertionError ''Branch is not set''), w)"
  "br \<noteq> [] \<Longrightarrow>
     setup_wellsky_apps_amplify config br [] w =
       (Inl (AssertionError ''Environment name is not set''), w)"
  "config product = Some sect \<Longrightarrow> sect ''path'' = Some path \<Longrightarrow>
     exists path w = (Inr True, w) \<Longrightarrow> product \<noteq> [] \<Longrightarrow>
     setup_git_with exists config product [] no_create ignore_non_existing reset_only w =
       (Inl (AssertionError ''Branch name is not set''), w)"
  by (simp_all add: remove_amplify_def setup_claire_amplify_def
        setup_wellsky_apps_amplify_def setup_git_with_def prog_defs)

text \<open>
  C9. \<^verbatim>\<open>setup_git(config, '', 'feature/x')\<close>: line 147 looks the product up in
  the configuration before line 149 asserts that it is set, so an empty product
  ends in \<^verbatim>\<open>KeyError('')\<close>, not in the \<^verbatim>\<open>AssertionError\<close> "Product is not
  set". Nothing was called and nothing printed.
\<close>

theorem setup_git_empty_product_key_error:
  "setup_git example_config [] ''feature/x'' False False False
     (example_world clean_repo clean_repo accept_all) =
   (Inl (KeyError []), example_world clean_repo clean_repo accept_all)"
  by (simp add: setup_git_def setup_git_with_def prog_defs example_defs)

theorem setup_git_empty_product_key_error_witness:
  "fst (setup_git example_config [] ''feature/x'' False False False
          (example_world clean_repo clean_repo accept_all)) = Inl (KeyError [])
   \<and> events (snd (setup_git example_config [] ''feature/x'' False False False
          (example_world clean_repo clean_repo accept_all))) = []
   \<and> out (snd (setup_git example_config [] ''feature/x'' False False False
          (example_world clean_repo clean_repo accept_all))) = []"
  using setup_git_empty_product_key_error by (simp add: example_world_def)

section \<open>Properties of the deployment bucket\<close>

text \<open>
  C2, as stated, fails: line 104 catches \<^verbatim>\<open>ClientError\<close> only. For the stage
  \<open>feature/x\<close> the bucket name has a slash, botocore refuses it with
  \<^verbatim>\<open>ParamValidationError\<close> before any request, and the creation call's
  exception leaves \<^verbatim>\<open>setup_deployment_bucket\<close>: the function does not return
  \<open>False\<close>.
\<close>

theorem setup_deployment_bucket_other_error_counterexample:
  "setup_deployment_bucket ''feature/x''
     (example_world clean_repo clean_repo
        (refuse
           (S3CreateBucket ''private'' ''serverless-deployment-state-feature/x''
              ''us-west-2'')
           (ParamValidationError ''Invalid bucket name''))) =
   (Inl (ParamValidationError ''Invalid bucket name''),
    (example_world clean_repo clean_repo
        (refuse
           (S3CreateBucket ''private'' ''serverless-deployment-state-feature/x''
              ''us-west-2'')
           (ParamValidationError ''Invalid bucket name'')))
      \<lparr>events :=
         [(S3CreateBucket ''private'' ''serverless-deployment-state-feature/x''
             ''us-west-2'',
           Some (ParamValidationError ''Invalid bucket name''))]\<rparr>)"
  by (simp add: setup_deployment_bucket_def prog_defs example_defs lower_examples Let_def)

text \<open>
  C2, amended. \<^verbatim>\<open>setup_deployment_bucket(stage)\<close> first calls
  \<^verbatim>\<open>create_bucket\<close> for the private bucket \<open>serverless-deployment-state-\<close>
  followed by \<^verbatim>\<open>stage.lower()\<close>, in \<open>us-west-2\<close>. When that call raises a
  \<^verbatim>\<open>ClientError\<close>, the function prints it and returns \<open>False\<close>, and no other
  call is made; when it raises another exception, that exception leaves the
  function, and no other call is made. When the call returns, the next call is
  \<^verbatim>\<open>put_bucket_encryption\<close> with AES256; when that returns, the next is
  \<^verbatim>\<open>put_public_access_block\<close> with the four flags true; when that returns,
  the function returns \<open>True\<close>. An exception of one of the two configuration
  calls leaves the function.
\<close>

theorem setup_deployment_bucket_calls:
  assumes "bucket_name = ''serverless-deployment-state-'' @ str_lower w stage"
    and "create = S3CreateBucket ''private'' bucket_name ''us-west-2''"
    and "enc = S3PutBucketEncryption bucket_name ''AES256''"
    and "pab = S3PutPublicAccessBlock bucket_name True True True True"
  shows "(respond w (events w) create = Some (ClientError msg) \<longrightarrow>
            setup_deployment_bucket stage w =
              (Inr False,
               w\<lparr>events := events w @ [(create, Some (ClientError msg))],
                 out := out w @
                   [unwords [''Unable to create bucket '' @ bucket_name, msg]]\<rparr>))
       \<and> (respond w (events w) create = Some e \<and> client_error_msg e = None \<longrightarrow>
            setup_deployment_bucket stage w =
              (Inl e, w\<lparr>events := events w @ [(create, Some e)]\<rparr>))
       \<and> (respond w (events w) create = None \<and>
          respond w (events w @ [(create, None)]) enc = Some e \<longrightarrow>
            setup_deployment_bucket stage w =
              (Inl e, w\<lparr>events := events w @ [(create, None), (enc, Some e)]\<rparr>))
       \<and> (respond w (events w) create = None \<and>
          respond w (events w @ [(create, None)]) enc = None \<and>
          respond w (events w @ [(create, None), (enc, None)]) pab = Some e \<longrightarrow>
            setup_deployment_bucket stage w =
              (Inl e,
               w\<lparr>events := events w @ [(create, None), (enc, None), (pab, Some e)]\<rparr>))
       \<and> (accepts w (events w) [create, enc, pab] \<longrightarrow>
            setup_deployment_bucket stage w =
              (Inr True, w\<lparr>events := events w @ accepted [create, enc, pab]\<rparr>))"
  using assms
  by (simp add: setup_deployment_bucket_def prog_defs accepted_def Let_def)

theorem setup_deployment_bucket_calls_witness:
  "setup_deployment_bucket ''QA'' (example_world clean_repo clean_repo accept_all) =
     (Inr True,
      (example_world clean_repo clean_repo accept_all)
        \<lparr>events :=
           [(S3CreateBucket ''private'' ''serverless-deployment-state-qa'' ''us-west-2'',
             None),
            (S3PutBucketEncryption ''serverless-deployment-state-qa'' ''AES256'', None),
            (S3PutPublicAccessBlock ''serverless-deployment-state-qa'' True True True True,
             None)]\<rparr>)
   \<and> setup_deployment_bucket ''QA''
       (example_world clean_repo clean_repo
          (refuse
             (S3CreateBucket ''private'' ''serverless-deployment-state-qa'' ''us-west-2'')
             (ClientError ''BucketAlreadyOwnedByYou''))) =
     (Inr False,
      (example_world clean_repo clean_repo
          (refuse
             (S3CreateBucket ''private'' ''serverless-deployment-state-qa'' ''us-west-2'')
             (ClientError ''BucketAlreadyOwnedByYou'')))
        \<lparr>events :=
           [(S3CreateBucket ''private'' ''serverless-deployment-state-qa'' ''us-west-2'',
             Some (ClientError ''BucketAlreadyOwnedByYou''))],
          out :=
           [''Unable to create bucket serverless-deployment-state-qa BucketAlreadyOwnedByYou'']\<rparr>)
   \<and> fst (setup_deployment_bucket ''QA''
       (example_world clean_repo clean_repo
          (refuse (S3PutBucketEncryption ''serverless-deployment-state-qa'' ''AES256'')
             (ClientError ''AccessDenied'')))) = Inl (ClientError ''AccessDenied'')"
  using
    setup_deployment_bucket_calls [where bucket_name = "''serverless-deployment-state-qa''"
      and stage = "''QA''"
      and w = "example_world clean_repo clean_repo accept_all"]
    setup_deployment_bucket_calls [where bucket_name = "''serverless-deployment-state-qa''"
      and stage = "''QA''"
      and w = "example_world clean_repo clean_repo
          (refuse
             (S3CreateBucket ''private'' ''serverless-deployment-state-qa'' ''us-west-2'')
             (ClientError ''BucketAlreadyOwnedByYou''))"
      and msg = "''BucketAlreadyOwnedByYou''"]
    setup_deployment_bucket_calls [where bucket_name = "''serverless-deployment-state-qa''"
      and stage = "''QA''"
      and w = "example_world clean_repo clean_repo
          (refuse (S3PutBucketEncryption ''serverless-deployment-state-qa'' ''AES256'')
             (ClientError ''AccessDenied''))"
      and e = "ClientError ''AccessDenied''"]
  by (simp add: example_defs accepted_def lower_examples)

section \<open>Failures of the Amplify calls\<close>

text \<open>
  A run of a workflow in which a call raised, seen in the log: the event
  \<open>(c, Some e)\<close> is among those the run added.
\<close>

lemma claire_create_branch_failed:
  assumes "setup_claire_amplify config br env_name ep sh w = (res, w')"
    and "(c, Some e) \<in> set (new_events w w')" and "is_create_branch c"
  shows "(\<forall>ev \<in> set (new_events w w'). \<not> is_start_job (fst ev))
        \<and> (e = ClientError msg \<longrightarrow>
             res = Inr () \<and> last (out w') = amplify_exception_msg msg)
        \<and> (client_error_msg e = None \<longrightarrow> res = Inl e)"
  using assms
  by (auto simp add: setup_claire_amplify_def setup_deployment_bucket_def
        start_release_job_def prog_defs Let_def new_events_def
        split: option.splits if_splits)

lemma wellsky_create_branch_failed:
  assumes "setup_wellsky_apps_amplify config br env_name w = (res, w')"
    and "(c, Some e) \<in> set (new_events w w')" and "is_create_branch c"
  shows "(\<forall>ev \<in> set (new_events w w'). \<not> is_start_job (fst ev))
        \<and> (e = ClientError msg \<longrightarrow>
             res = Inr () \<and> last (out w') = amplify_exception_msg msg)
        \<and> (client_error_msg e = None \<longrightarrow> res = Inl e)"
  using assms
  by (auto simp add: setup_wellsky_apps_amplify_def start_release_job_def
        prog_defs Let_def new_events_def split: option.splits if_splits)

lemma remove_amplify_refused:
  assumes "remove_amplify config product env_name w = (res, w')"
    and "(c, Some (ClientError msg)) \<in> set (new_events w w')"
  shows "res = Inr () \<and> last (out w') = ''Unable to remove Amplify branch: '' @ msg"
  using assms
  by (auto simp add: remove_amplify_def prog_defs Let_def new_events_def
        split: option.splits if_splits)

text \<open>
  C3, as stated, fails: lines 43 and 79 catch \<^verbatim>\<open>ClientError\<close> only. When
  \<^verbatim>\<open>create_branch\<close> fails with another exception, here botocore's
  \<^verbatim>\<open>EndpointConnectionError\<close>, the exception leaves
  \<^verbatim>\<open>setup_wellsky_apps_amplify\<close> and nothing is reported.
\<close>

theorem create_branch_other_error_counterexample:
  "setup_wellsky_apps_amplify example_config ''feature/x'' ''CW-2134''
     (example_world clean_repo clean_repo
        (refuse (wellsky_create_branch ''feature/x'')
           (EndpointConnectionError ''Could not connect to the endpoint URL''))) =
   (Inl (EndpointConnectionError ''Could not connect to the endpoint URL''),
    (example_world clean_repo clean_repo
        (refuse (wellsky_create_branch ''feature/x'')
           (EndpointConnectionError ''Could not connect to the endpoint URL'')))
      \<lparr>out := [''Creating wellsky apps branch CW-2134''],
        events :=
          [(wellsky_create_branch ''feature/x'',
            Some (EndpointConnectionError ''Could not connect to the endpoint URL''))]\<rparr>)"
  by (simp add: setup_wellsky_apps_amplify_def prog_defs example_defs lower_examples)

text \<open>
  C3, amended. In a run of \<^verbatim>\<open>setup_claire_amplify\<close> or of
  \<^verbatim>\<open>setup_wellsky_apps_amplify\<close> in which the \<^verbatim>\<open>create_branch\<close> call raised
  an exception, no \<^verbatim>\<open>start_job\<close> call is made. When the exception is a
  \<^verbatim>\<open>ClientError\<close>, the function returns without an exception and the last
  line it printed reports the error; any other exception leaves the function.
\<close>

theorem create_branch_failure_no_release_job:
  "(setup_claire_amplify config br env_name ep sh w = (res, w') \<and>
    (c, Some e) \<in> set (new_events w w') \<and> is_create_branch c \<longrightarrow>
      (\<forall>ev \<in> set (new_events w w'). \<not> is_start_job (fst ev)) \<and>
      (e = ClientError msg \<longrightarrow>
         res = Inr () \<and> last (out w') = amplify_exception_msg msg) \<and>
      (client_error_msg e = None \<longrightarrow> res = Inl e))
   \<and> (setup_wellsky_apps_amplify config br env_name w = (res, w') \<and>
    (c, Some e) \<in> set (new_events w w') \<and> is_create_branch c \<longrightarrow>
      (\<forall>ev \<in> set (new_events w w'). \<not> is_start_job (fst ev)) \<and>
      (e = ClientError msg \<longrightarrow>
         res = Inr () \<and> last (out w') = amplify_exception_msg msg) \<and>
      (client_error_msg e = None \<longrightarrow> res = Inl e))"
  using claire_create_branch_failed [of config br env_name ep sh w res w' c e msg]
    wellsky_create_branch_failed [of config br env_name w res w' c e msg]
  by blast

theorem create_branch_failure_no_release_job_witness:
  "fst (setup_claire_amplify example_config ''feature/x'' ''CW-2134''
          ''http://graphql.claire-qa.clearcare.ninja'' ''qa''
          (example_world clean_repo clean_repo
             (refuse (claire_create_branch ''feature/x'')
                (ClientError ''BadRequestException''))))
     = Inr ()
   \<and> new_events
       (example_world clean_repo clean_repo
          (refuse (claire_create_branch ''feature/x'')
             (ClientError ''BadRequestException'')))
       (snd (setup_claire_amplify example_config ''feature/x'' ''CW-2134''
          ''http://graphql.claire-qa.clearcare.ninja'' ''qa''
          (example_world clean_repo clean_repo
             (refuse (claire_create_branch ''feature/x'')
                (ClientError ''BadRequestException'')))))
     = bucket_calls @
       [(claire_create_branch ''feature/x'', Some (ClientError ''BadRequestException''))]
   \<and> fst (setup_wellsky_apps_amplify example_config ''feature/x'' ''CW-2134''
          (example_world clean_repo clean_repo
             (refuse (wellsky_create_branch ''feature/x'')
                (ClientError ''BadRequestException''))))
     = Inr ()
   \<and> last (out (snd (setup_wellsky_apps_amplify example_config ''feature/x'' ''CW-2134''
          (example_world clean_repo clean_repo
             (refuse (wellsky_create_branch ''feature/x'')
                (ClientError ''BadRequestException''))))))
     = amplify_exception_msg ''BadRequestException''"
proof -
  let ?wc = "example_world clean_repo clean_repo
      (refuse (claire_create_branch ''feature/x'') (ClientError ''BadRequestException''))"
  let ?ww = "example_world clean_repo clean_repo
      (refuse (wellsky_create_branch ''feature/x'') (ClientError ''BadRequestException''))"
  let ?rc = "setup_claire_amplify example_config ''feature/x'' ''CW-2134''
      ''http://graphql.claire-qa.clearcare.ninja'' ''qa'' ?wc"
  let ?rw = "setup_wellsky_apps_amplify example_config ''feature/x'' ''CW-2134'' ?ww"
  have evc: "new_events ?wc (snd ?rc) =
      bucket_calls @
      [(claire_create_branch ''feature/x'', Some (ClientError ''BadRequestException''))]"
    by (simp add: workflow_defs prog_defs example_defs lower_examples new_events_def)
  have evw: "new_events ?ww (snd ?rw) =
      [(wellsky_create_branch ''feature/x'', Some (ClientError ''BadRequestException''))]"
    by (simp add: workflow_defs prog_defs example_defs lower_examples new_events_def)
  have c: "is_create_branch (claire_create_branch ''feature/x'')"
    "is_create_branch (wellsky_create_branch ''feature/x'')"
    by (simp_all add: claire_create_branch_def wellsky_create_branch_def)
  have "fst ?rc = Inr ()"
    using create_branch_failure_no_release_job
      [where config = example_config and br = "''feature/x''" and env_name = "''CW-2134''"
        and ep = "''http://graphql.claire-qa.clearcare.ninja''" and sh = "''qa''"
        and w = ?wc and res = "fst ?rc" and w' = "snd ?rc"
        and c = "claire_create_branch ''feature/x''"
        and e = "ClientError ''BadRequestException''" and msg = "''BadRequestException''"]
      c
    by (simp add: evc)
  moreover have "fst ?rw = Inr () \<and>
      last (out (snd ?rw)) = amplify_exception_msg ''BadRequestException''"
    using create_branch_failure_no_release_job
      [where config = example_config and br = "''feature/x''" and env_name = "''CW-2134''"
        and w = ?ww and res = "fst ?rw" and w' = "snd ?rw"
        and c = "wellsky_create_branch ''feature/x''"
        and e = "ClientError ''BadRequestException''" and msg = "''BadRequestException''"]
      c
    by (simp add: evw)
  ultimately show ?thesis
    using evc by simp
qed

text \<open>
  C4, as stated, fails: \<^verbatim>\<open>start_job\<close> is called after the \<^verbatim>\<open>try\<close> statement,
  so its \<^verbatim>\<open>ClientError\<close> leaves \<^verbatim>\<open>setup_claire_amplify\<close> and ends the run.
  \<^verbatim>\<open>devenv.py --remote-only --claire --wellsky-apps --branch feature/x --env
  CW-2134 --share-data-with qa\<close>, Amplify refusing the release job of claire:
  the run ends with the error and nothing is called for wellsky-apps.
\<close>

theorem start_job_error_ends_batch_counterexample:
  "fst (main example_config batch_args
          (example_world clean_repo clean_repo
             (refuse (start_job ''d1claire'' ''feature/x'')
                (ClientError ''LimitExceededException''))))
     = Inl (ClientError ''LimitExceededException'')
   \<and> events (snd (main example_config batch_args
          (example_world clean_repo clean_repo
             (refuse (start_job ''d1claire'' ''feature/x'')
                (ClientError ''LimitExceededException'')))))
     = bucket_calls @
       [(claire_create_branch ''feature/x'', None),
        (start_job ''d1claire'' ''feature/x'', Some (ClientError ''LimitExceededException''))]"
  by (simp add: workflow_defs prog_defs example_defs lower_examples)

text \<open>
  C4, amended. In a run for both products that has come to the Amplify part
  (the local part returned, leaving the world \<open>wl\<close>): when the \<^verbatim>\<open>create_branch\<close>
  call of claire's create workflow, or the \<^verbatim>\<open>delete_branch\<close> call of claire's
  remove workflow, raises its \<^verbatim>\<open>ClientError\<close>, the workflow returns without an
  exception, its last printed line reports the error, and the run goes on with
  the workflow of wellsky-apps from the world \<open>w1\<close> claire's workflow left. An
  error of \<^verbatim>\<open>start_job\<close> is not among those caught.
\<close>

theorem batch_continues_after_caught_error:
  assumes "jira a = None" and "\<not> local_only a" and "claire a" and "wellsky_apps a"
    and "local_part config a w = (Inr (), wl)"
  shows "(\<not> remove a \<and>
          setup_claire_amplify config (str (branch a)) (str (env a))
            (str (bretha_graphql_endpoint a)) (str (share_data_with a)) wl = (res, w1) \<and>
          (c, Some (ClientError msg)) \<in> set (new_events wl w1) \<and> is_create_branch c \<longrightarrow>
            res = Inr () \<and> last (out w1) = amplify_exception_msg msg \<and>
            main config a w =
              bnd (setup_wellsky_apps_amplify config (str (branch a)) (str (env a))) (\<lambda>_.
              do_when (truthy (copy_data_from a))
                (copy_data (str (env a)) (str (copy_data_from a)))) w1)
       \<and> (remove a \<and> remove_amplify config ''claire'' (str (env a)) wl = (res, w1) \<and>
          (c, Some (ClientError msg)) \<in> set (new_events wl w1) \<longrightarrow>
            res = Inr () \<and> last (out w1) = ''Unable to remove Amplify branch: '' @ msg \<and>
            main config a w = remove_amplify config ''wellsky-apps'' (str (env a)) w1)"
proof (intro conjI impI)
  assume h: "\<not> remove a \<and>
          setup_claire_amplify config (str (branch a)) (str (env a))
            (str (bretha_graphql_endpoint a)) (str (share_data_with a)) wl = (res, w1) \<and>
          (c, Some (ClientError msg)) \<in> set (new_events wl w1) \<and> is_create_branch c"
  then have r: "res = Inr () \<and> last (out w1) = amplify_exception_msg msg"
    using claire_create_branch_failed [of config "str (branch a)" "str (env a)"
        "str (bretha_graphql_endpoint a)" "str (share_data_with a)" wl res w1 c
        "ClientError msg" msg]
    by blast
  then show "res = Inr ()" and "last (out w1) = amplify_exception_msg msg"
    by simp_all
  from h r assms show "main config a w =
              bnd (setup_wellsky_apps_amplify config (str (branch a)) (str (env a))) (\<lambda>_.
              do_when (truthy (copy_data_from a))
                (copy_data (str (env a)) (str (copy_data_from a)))) w1"
    by (simp add: main_def general_def remote_part_def bnd_def do_when_def)
next
  assume h: "remove a \<and> remove_amplify config ''claire'' (str (env a)) wl = (res, w1) \<and>
          (c, Some (ClientError msg)) \<in> set (new_events wl w1)"
  then have r: "res = Inr () \<and> last (out w1) = ''Unable to remove Amplify branch: '' @ msg"
    using remove_amplify_refused by blast
  then show "res = Inr ()" and "last (out w1) = ''Unable to remove Amplify branch: '' @ msg"
    by simp_all
  from h r assms show "main config a w =
      remove_amplify config ''wellsky-apps'' (str (env a)) w1"
    by (simp add: main_def general_def remote_part_def bnd_def do_when_def)
qed

theorem batch_continues_after_caught_error_witness:
  "fst (main example_config batch_args
          (example_world clean_repo clean_repo
             (refuse (claire_create_branch ''feature/x'')
                (ClientError ''BadRequestException''))))
     = Inr ()
   \<and> events (snd (main example_config batch_args
          (example_world clean_repo clean_repo
             (refuse (claire_create_branch ''feature/x'')
                (ClientError ''BadRequestException'')))))
     = bucket_calls @
       [(claire_create_branch ''feature/x'', Some (ClientError ''BadRequestException'')),
        (wellsky_create_branch ''feature/x'', None),
        (start_job ''d2wellsky'' ''feature/x'', None)]
   \<and> events (snd (main example_config (batch_args\<lparr>remove := True\<rparr>)
          (example_world clean_repo clean_repo
             (refuse (AmplifyDeleteBranch ''d1claire'' ''CW-2134'')
                (ClientError ''NotFoundException'')))))
     = [(AmplifyDeleteBranch ''d1claire'' ''CW-2134'',
         Some (ClientError ''NotFoundException'')),
        (AmplifyDeleteBranch ''d2wellsky'' ''CW-2134'', None)]"
proof -
  let ?wc = "example_world clean_repo clean_repo
      (refuse (claire_create_branch ''feature/x'') (ClientError ''BadRequestException''))"
  let ?wr = "example_world clean_repo clean_repo
      (refuse (AmplifyDeleteBranch ''d1claire'' ''CW-2134'')
         (ClientError ''NotFoundException''))"
  let ?rc = "setup_claire_amplify example_config ''feature/x'' ''CW-2134''
      ''http://graphql.claire-qa.clearcare.ninja'' ''qa'' ?wc"
  let ?rr = "remove_amplify example_config ''claire'' ''CW-2134'' ?wr"
  have args: "jira batch_args = None" "\<not> local_only batch_args" "claire batch_args"
    "wellsky_apps batch_args" "\<not> remove batch_args"
    "str (branch batch_args) = ''feature/x''" "str (env batch_args) = ''CW-2134''"
    "str (bretha_graphql_endpoint batch_args) = ''http://graphql.claire-qa.clearcare.ninja''"
    "str (share_data_with batch_args) = ''qa''" "\<not> truthy (copy_data_from batch_args)"
    by (simp_all add: batch_args_def default_args_def str_def truthy_def)
  have local: "local_part example_config batch_args ?wc = (Inr (), ?wc)"
    "local_part example_config (batch_args\<lparr>remove := True\<rparr>) ?wr = (Inr (), ?wr)"
    by (simp_all add: local_part_def batch_args_def default_args_def do_when_def ret_def)
  have evc: "new_events ?wc (snd ?rc) =
      bucket_calls @
      [(claire_create_branch ''feature/x'', Some (ClientError ''BadRequestException''))]"
    by (simp add: workflow_defs prog_defs example_defs lower_examples new_events_def)
  have evr: "new_events ?wr (snd ?rr) =
      [(AmplifyDeleteBranch ''d1claire'' ''CW-2134'',
        Some (ClientError ''NotFoundException''))]"
    by (simp add: workflow_defs prog_defs example_defs new_events_def)
  have c: "is_create_branch (claire_create_branch ''feature/x'')"
    by (simp add: claire_create_branch_def)
  have m1: "main example_config batch_args ?wc =
      bnd (setup_wellsky_apps_amplify example_config ''feature/x'' ''CW-2134'') (\<lambda>_.
      do_when False (copy_data ''CW-2134'' [])) (snd ?rc)"
    using batch_continues_after_caught_error
      [where a = batch_args and config = example_config and w = ?wc and wl = ?wc
        and res = "fst ?rc" and ?w1.0 = "snd ?rc"
        and c = "claire_create_branch ''feature/x''" and msg = "''BadRequestException''"]
      args local c
    by (simp add: evc str_def truthy_def batch_args_def default_args_def)
  have m2: "main example_config (batch_args\<lparr>remove := True\<rparr>) ?wr =
      remove_amplify example_config ''wellsky-apps'' ''CW-2134'' (snd ?rr)"
    using batch_continues_after_caught_error
      [where a = "batch_args\<lparr>remove := True\<rparr>" and config = example_config and w = ?wr
        and wl = ?wr and res = "fst ?rr" and ?w1.0 = "snd ?rr"
        and c = "AmplifyDeleteBranch ''d1claire'' ''CW-2134''"
        and msg = "''NotFoundException''"]
      args local
    by (simp add: evr)
  show ?thesis
    unfolding m1 m2
    by (simp add: workflow_defs prog_defs example_defs lower_examples)
qed

section \<open>The ticket shortcut\<close>

text \<open>\<^verbatim>\<open>setup_git\<close> calls git and nothing else.\<close>

lemma git_only_ret: "git_only (ret x)"
  by (simp add: git_only_def ret_def)

lemma git_only_raise: "git_only (raise e)"
  by (simp add: git_only_def raise_def)

lemma git_only_print: "git_only (print s)"
  by (simp add: git_only_def print_def)

lemma git_only_py_assert: "git_only (py_assert b s)"
  by (simp add: py_assert_def git_only_ret git_only_raise)

lemma git_only_getitem: "git_only (getitem d k)"
  by (simp add: getitem_def git_only_ret git_only_raise split: option.splits)

lemma git_only_with_repo: "git_only (with_repo p f)"
  by (simp add: git_only_def with_repo_def split: option.splits)

lemma git_only_update_repo: "git_only (update_repo p f)"
  by (simp add: git_only_def update_repo_def split: option.splits)

lemma git_only_Path_exists: "git_only (Path_exists p)"
  by (simp add: Path_exists_def git_only_raise)

lemma git_only_invoke: "is_git c \<Longrightarrow> git_only (invoke c)"
  by (simp add: git_only_def invoke_def Let_def split: option.splits)

lemma git_only_bnd:
  assumes "git_only m" and "\<And>x. git_only (f x)"
  shows "git_only (bnd m f)"
  unfolding git_only_def
proof
  fix w
  from assms(1) obtain es where m: "events (snd (m w)) = events w @ es"
    "\<forall>e \<in> set es. is_git (fst e)"
    unfolding git_only_def by blast
  show "\<exists>es. events (snd (bnd m f w)) = events w @ es \<and> (\<forall>e\<in>set es. is_git (fst e))"
  proof (cases "m w")
    case (Pair res w')
    show ?thesis
    proof (cases res)
      case (Inl e)
      with Pair m show ?thesis by (auto simp: bnd_def)
    next
      case (Inr x)
      from assms(2) [of x] obtain es' where f: "events (snd (f x w')) = events w' @ es'"
        "\<forall>e \<in> set es'. is_git (fst e)"
        unfolding git_only_def by blast
      with Pair Inr m have "events (snd (bnd m f w)) = events w @ (es @ es')"
        by (simp add: bnd_def)
      moreover from m f have "\<forall>e \<in> set (es @ es'). is_git (fst e)" by auto
      ultimately show ?thesis by blast
    qed
  qed
qed

lemma git_only_do_when: "git_only m \<Longrightarrow> git_only (do_when b m)"
  by (simp add: do_when_def git_only_ret)

lemma git_only_if: "git_only m \<Longrightarrow> git_only n \<Longrightarrow> git_only (if b then m else n)"
  by simp

lemma git_only_setup_git:
  "git_only (setup_git config product branch_name no_create ignore_non_existing reset_only)"
  unfolding setup_git_def setup_git_with_def Repo_def git_checkout_def create_head_def
    remote_push_def
  by (intro git_only_bnd git_only_do_when git_only_if git_only_invoke git_only_ret
        git_only_raise git_only_print git_only_py_assert git_only_getitem
        git_only_with_repo git_only_update_repo git_only_Path_exists) simp_all

lemma bnd_ret: "bnd (ret x) f = f x"
  by (simp add: bnd_def ret_def)

lemma git_only_new_events:
  assumes "git_only m"
  shows "\<forall>e \<in> set (new_events w (snd (m w))). is_git (fst e)"
proof -
  from assms obtain es where "events (snd (m w)) = events w @ es"
    "\<forall>e\<in>set es. is_git (fst e)"
    unfolding git_only_def by blast
  then show ?thesis
    by (simp add: new_events_def)
qed

text \<open>
  C8, as stated, fails: after \<^verbatim>\<open>--new\<close> has set the environment name and the
  share target, the run goes on with the lines every run goes through, and
  there \<^verbatim>\<open>--remove\<close> selects the removal. \<^verbatim>\<open>devenv.py --claire --remove
  --remote-only jira CW-2134 --new\<close>: the Amplify branch \<open>CW-2134\<close> is deleted;
  no bucket, no branch and no release job is made.
\<close>

theorem jira_new_with_remove_counterexample:
  "fst (main example_config ((jira_args True)\<lparr>remove := True, remote_only := True\<rparr>)
          (example_world clean_repo clean_repo accept_all)) = Inr ()
   \<and> events (snd (main example_config
          ((jira_args True)\<lparr>remove := True, remote_only := True\<rparr>)
          (example_world clean_repo clean_repo accept_all)))
     = [(AmplifyDeleteBranch ''d1claire'' ''CW-2134'', None)]"
  by (simp add: workflow_defs prog_defs example_defs)

text \<open>
  C8, amended. The shortcut with a ticket \<open>t\<close> that is not empty; the local
  branch name is \<open>issue/t\<close>. Each step below is made only when the steps
  before it returned; an exception of a step ends the run.
  Without \<^verbatim>\<open>--new\<close> the run is: the call of \<^verbatim>\<open>setup_git\<close> with \<open>no_create\<close>
  and \<open>ignore_non_existing\<close> for claire if it is selected, the same call for
  wellsky-apps if it is selected, then \<^verbatim>\<open>exit(0)\<close>; every call the run makes
  goes to git, none to Amplify or S3.
  With \<^verbatim>\<open>--new\<close> and without \<^verbatim>\<open>--remove\<close> the run is: unless
  \<^verbatim>\<open>--remote-only\<close> is given, the call of \<^verbatim>\<open>setup_git\<close> with \<open>no_create\<close>
  false for claire and then for wellsky-apps, as far as they are selected;
  \<^verbatim>\<open>setup_claire_amplify\<close> with the environment name \<open>t\<close> and the share
  target \<open>qa\<close> if claire is selected; \<^verbatim>\<open>setup_wellsky_apps_amplify\<close> with the
  environment name \<open>t\<close> if wellsky-apps is selected; \<^verbatim>\<open>copy_data\<close> if
  \<^verbatim>\<open>--copy-data-from\<close> is given.
\<close>

theorem jira_shortcut:
  assumes "jira a = Some (Some ticket, new)" and "ticket \<noteq> []"
  shows "(\<not> new \<longrightarrow>
           main config a w =
             bnd (do_when (claire a)
                    (setup_git config ''claire'' (''issue/'' @ ticket) True True False))
               (\<lambda>_.
             bnd (do_when (wellsky_apps a)
                    (setup_git config ''wellsky-apps'' (''issue/'' @ ticket) True True
                       False)) (\<lambda>_.
             raise (SystemExit 0))) w
           \<and> (\<forall>e \<in> set (new_events w (snd (main config a w))). is_git (fst e)))
       \<and> (new \<and> \<not> remove a \<longrightarrow>
           main config a w =
             bnd (do_when (\<not> remote_only a)
                    (bnd (do_when (claire a)
                            (setup_git config ''claire'' (''issue/'' @ ticket) False False
                               False)) (\<lambda>_.
                     do_when (wellsky_apps a)
                       (setup_git config ''wellsky-apps'' (''issue/'' @ ticket) False False
                          False)))) (\<lambda>_.
             bnd (do_when (claire a)
                    (setup_claire_amplify config (''issue/'' @ ticket) ticket
                       (str (bretha_graphql_endpoint a)) ''qa'')) (\<lambda>_.
             bnd (do_when (wellsky_apps a)
                    (setup_wellsky_apps_amplify config (''issue/'' @ ticket) ticket)) (\<lambda>_.
             do_when (truthy (copy_data_from a))
               (copy_data ticket (str (copy_data_from a)))))) w)"
proof (intro conjI impI)
  assume n: "\<not> new"
  let ?m = "bnd (do_when (claire a)
                    (setup_git config ''claire'' (''issue/'' @ ticket) True True False))
               (\<lambda>_.
             bnd (do_when (wellsky_apps a)
                    (setup_git config ''wellsky-apps'' (''issue/'' @ ticket) True True
                       False)) (\<lambda>_.
             raise (SystemExit 0)))"
  show eq: "main config a w = ?m w"
    using assms n by (simp add: main_def str_def Let_def)
  have "git_only ?m"
    by (intro git_only_bnd git_only_do_when git_only_setup_git git_only_raise)
  then have "\<forall>e \<in> set (new_events w (snd (?m w))). is_git (fst e)"
    by (rule git_only_new_events)
  then show "\<forall>e \<in> set (new_events w (snd (main config a w))). is_git (fst e)"
    by (simp add: eq)
next
  assume n: "new \<and> \<not> remove a"
  show "main config a w =
             bnd (do_when (\<not> remote_only a)
                    (bnd (do_when (claire a)
                            (setup_git config ''claire'' (''issue/'' @ ticket) False False
                               False)) (\<lambda>_.
                     do_when (wellsky_apps a)
                       (setup_git config ''wellsky-apps'' (''issue/'' @ ticket) False False
                          False)))) (\<lambda>_.
             bnd (do_when (claire a)
                    (setup_claire_amplify config (''issue/'' @ ticket) ticket
                       (str (bretha_graphql_endpoint a)) ''qa'')) (\<lambda>_.
             bnd (do_when (wellsky_apps a)
                    (setup_wellsky_apps_amplify config (''issue/'' @ ticket) ticket)) (\<lambda>_.
             do_when (truthy (copy_data_from a))
               (copy_data ticket (str (copy_data_from a)))))) w"
    using assms n
    by (simp add: main_def general_def local_part_def remote_part_def str_def truthy_def
          Let_def do_when_def)
qed

theorem jira_shortcut_witness:
  "main example_config (jira_args False)
     (example_world clean_repo clean_repo accept_all)
     = (Inl (AttributeError no_stat_msg), example_world clean_repo clean_repo accept_all)
   \<and> fst (main example_config ((jira_args True)\<lparr>remote_only := True\<rparr>)
          (example_world clean_repo clean_repo accept_all)) = Inr ()
   \<and> events (snd (main example_config ((jira_args True)\<lparr>remote_only := True\<rparr>)
          (example_world clean_repo clean_repo accept_all)))
     = bucket_calls @
       [(claire_create_branch ''issue/CW-2134'', None),
        (start_job ''d1claire'' ''issue/CW-2134'', None)]"
proof -
  let ?w = "example_world clean_repo clean_repo accept_all"
  have a1: "jira (jira_args False) = Some (Some ''CW-2134'', False)"
    "claire (jira_args False)"
    by (simp_all add: jira_args_def default_args_def)
  have a2: "jira ((jira_args True)\<lparr>remote_only := True\<rparr>) = Some (Some ''CW-2134'', True)"
    "\<not> remove ((jira_args True)\<lparr>remote_only := True\<rparr>)"
    "claire ((jira_args True)\<lparr>remote_only := True\<rparr>)"
    "\<not> wellsky_apps ((jira_args True)\<lparr>remote_only := True\<rparr>)"
    "remote_only ((jira_args True)\<lparr>remote_only := True\<rparr>)"
    "\<not> truthy (copy_data_from ((jira_args True)\<lparr>remote_only := True\<rparr>))"
    "str (bretha_graphql_endpoint ((jira_args True)\<lparr>remote_only := True\<rparr>)) =
       ''http://graphql.claire-qa.clearcare.ninja''"
    by (simp_all add: jira_args_def default_args_def truthy_def str_def)
  have stop: "setup_git example_config ''claire'' ''issue/CW-2134'' True True False ?w =
      (Inl (AttributeError no_stat_msg), ?w)"
    by (simp add: setup_git_def setup_git_with_def prog_defs example_defs)
  have m1: "main example_config (jira_args False) ?w = (Inl (AttributeError no_stat_msg), ?w)"
    using jira_shortcut [where a = "jira_args False" and ticket = "''CW-2134''"
        and new = False and config = example_config and w = ?w] a1
    by (simp add: stop bnd_def do_when_def)
  have m2: "main example_config ((jira_args True)\<lparr>remote_only := True\<rparr>) ?w =
      bnd (setup_claire_amplify example_config ''issue/CW-2134'' ''CW-2134''
             ''http://graphql.claire-qa.clearcare.ninja'' ''qa'') (\<lambda>_. ret ()) ?w"
    using jira_shortcut [where a = "(jira_args True)\<lparr>remote_only := True\<rparr>"
        and ticket = "''CW-2134''" and new = True and config = example_config and w = ?w]
      a2
    by (simp add: do_when_def bnd_ret)
  have p2: "fst (main example_config ((jira_args True)\<lparr>remote_only := True\<rparr>) ?w) = Inr ()
      \<and> events (snd (main example_config ((jira_args True)\<lparr>remote_only := True\<rparr>) ?w))
        = bucket_calls @
          [(claire_create_branch ''issue/CW-2134'', None),
           (start_job ''d1claire'' ''issue/CW-2134'', None)]"
    unfolding m2
    by (simp add: setup_claire_amplify_def setup_deployment_bucket_def
          start_release_job_def Let_def prog_defs example_defs lower_examples)
  from m1 p2 show ?thesis
    by simp
qed

end
